theory Spec2Isabelle
  imports Complex_Main "HOL-Library.AList"
begin

section \<open>Data model of the POS transaction engine (grocery\_pos.py)\<close>

subsection \<open>Python floats\<close>

text \<open>
  The source computes prices, quantities and totals with Python floats. A float is a
  finite value, one of the two infinities, or NaN; \<open>float()\<close> accepts the texts
  \<open>nan\<close> and \<open>inf\<close>, and \<open>json\<close> writes and reads the three special values. The
  special values follow IEEE 754: NaN is absorbing and every comparison with it is false.

  A finite result is the exact result as rounded by the hardware. The rounding is the
  parameter \<open>rnd\<close> of every operation and of every handler below: it takes the exact
  real result to the float that is stored, which may be an infinity on overflow. The
  theorems hold for every \<open>rnd\<close>. The examples use \<open>exact\<close>, which rounds nothing:
  all their values are binary fractions of a few digits, which a double holds exactly,
  so that IEEE rounding leaves each of them as it is. The sign of zero is not modelled.

  The prices and quantities of the JSON documents are floats, as \<open>add_update_product\<close>
  writes them (\<open>float()\<close> of its two entries). The one Python int of the handlers is the
  quantity that \<open>scan_item\<close> parses with \<open>int()\<close>; it is unbounded, and it is modelled
  as an \<open>int\<close>.
\<close>

datatype pyfloat = Fin real | PInf | NInf | NaN

type_synonym rounding = "real \<Rightarrow> pyfloat"

definition exact :: rounding where
  "exact x = Fin x"

fun fneg :: "pyfloat \<Rightarrow> pyfloat" where
  "fneg (Fin x) = Fin (- x)"
| "fneg PInf = NInf"
| "fneg NInf = PInf"
| "fneg NaN = NaN"

fun fadd :: "rounding \<Rightarrow> pyfloat \<Rightarrow> pyfloat \<Rightarrow> pyfloat" where
  "fadd rnd NaN y = NaN"
| "fadd rnd x NaN = NaN"
| "fadd rnd (Fin x) (Fin y) = rnd (x + y)"
| "fadd rnd PInf NInf = NaN"
| "fadd rnd NInf PInf = NaN"
| "fadd rnd PInf y = PInf"
| "fadd rnd x PInf = PInf"
| "fadd rnd NInf y = NInf"
| "fadd rnd x NInf = NInf"

definition fsub :: "rounding \<Rightarrow> pyfloat \<Rightarrow> pyfloat \<Rightarrow> pyfloat" where
  "fsub rnd x y = fadd rnd x (fneg y)"

text \<open>The sign of an infinity times a finite factor; zero times infinity is NaN.\<close>

definition inf_times :: "bool \<Rightarrow> real \<Rightarrow> pyfloat" where
  "inf_times positive x =
     (if x = 0 then NaN else if (0 < x) = positive then PInf else NInf)"

fun fmul :: "rounding \<Rightarrow> pyfloat \<Rightarrow> pyfloat \<Rightarrow> pyfloat" where
  "fmul rnd NaN y = NaN"
| "fmul rnd x NaN = NaN"
| "fmul rnd (Fin x) (Fin y) = rnd (x * y)"
| "fmul rnd (Fin x) PInf = inf_times True x"
| "fmul rnd (Fin x) NInf = inf_times False x"
| "fmul rnd PInf (Fin y) = inf_times True y"
| "fmul rnd NInf (Fin y) = inf_times False y"
| "fmul rnd PInf PInf = PInf"
| "fmul rnd PInf NInf = NInf"
| "fmul rnd NInf PInf = NInf"
| "fmul rnd NInf NInf = PInf"

text \<open>Division by a positive finite constant: the source divides by \<open>100.0\<close> only.\<close>

fun fdiv_const :: "rounding \<Rightarrow> pyfloat \<Rightarrow> real \<Rightarrow> pyfloat" where
  "fdiv_const rnd (Fin x) c = rnd (x / c)"
| "fdiv_const rnd PInf c = PInf"
| "fdiv_const rnd NInf c = NInf"
| "fdiv_const rnd NaN c = NaN"

fun flt :: "pyfloat \<Rightarrow> pyfloat \<Rightarrow> bool" where
  "flt NaN y = False"
| "flt x NaN = False"
| "flt (Fin x) (Fin y) = (x < y)"
| "flt NInf NInf = False"
| "flt NInf y = True"
| "flt x NInf = False"
| "flt PInf y = False"
| "flt x PInf = True"

fun fle :: "pyfloat \<Rightarrow> pyfloat \<Rightarrow> bool" where
  "fle NaN y = False"
| "fle x NaN = False"
| "fle (Fin x) (Fin y) = (x \<le> y)"
| "fle NInf y = True"
| "fle x NInf = False"
| "fle x PInf = True"
| "fle PInf y = False"

text \<open>
  An int becomes a float when \<open>float(n)\<close> is called and when it meets a float in an
  addition. The conversion rounds to the nearest float, ties to even, and raises
  OverflowError ("int too large to convert to float") when that is beyond the largest
  float \<open>2 ^ 1024 - 2 ^ 971\<close>, which is from \<open>2 ^ 1024 - 2 ^ 970\<close> on. A comparison of
  a float with an int converts nothing and is exact.
\<close>

definition int_too_large :: "int \<Rightarrow> bool" where
  "int_too_large n = (2 ^ 1024 - 2 ^ 970 \<le> \<bar>n\<bar>)"

definition float_of_int :: "rounding \<Rightarrow> int \<Rightarrow> pyfloat" where
  "float_of_int rnd n = rnd (of_int n)"

subsection \<open>Entries, documents and state\<close>

text \<open>
  Entry widgets. The text of a Tk entry is classified by what the source's parser
  (\<open>int()\<close> or \<open>float()\<close>) does with it: \<open>Blank\<close> is the empty string (falsy in Python,
  and the parser raises ValueError on it), \<open>Garbage\<close> is any non-empty text on which the
  parser raises ValueError, \<open>Number x\<close> is a text the parser turns into \<open>x\<close>; for
  \<open>float()\<close> that includes \<open>Number NaN\<close> and the infinities.

  Display. The list box of the cart, the total and change labels and the low-stock dot
  (\<open>update_cart_display\<close>, \<open>update_change\<close>, \<open>update_low_stock_dot\<close>) only show the state
  and are left out; the dialogs are kept, as the values the handlers return. The one
  dialog left out is that of \<open>load_data\<close> on a file that does not parse: the low-stock
  dot reads the files again for its colour, and shows it again.
\<close>

datatype 'a entry = Blank | Garbage | Number 'a

type_synonym barcode = string

text \<open>A product document of products.json: \<open>{"name": ..., "price": ...}\<close>.\<close>

record product =
  prod_name :: string
  price :: pyfloat

text \<open>A cart line, the dict built in \<open>scan_item\<close> and \<open>add_weighted_item\<close>.\<close>

record cart_item =
  name :: string
  unit_price :: pyfloat
  quantity :: pyfloat
  line_total :: pyfloat
  is_weighted :: bool

text \<open>One entry of sales\_log.json, the dict built in \<open>log_sale\<close>.\<close>

record log_entry =
  log_timestamp :: string
  log_barcode :: barcode
  log_name :: string
  log_quantity :: pyfloat
  log_line_total :: pyfloat
  log_is_weighted :: bool

text \<open>
  The cart is a Python dict, whose iteration order is insertion order: an association list
  with \<open>AList.update\<close> (replace in place, or append a new key at the end) and
  \<open>AList.delete\<close>. The inventory document maps a barcode to \<open>{"quantity": q}\<close>, the only
  shape \<open>add_update_product\<close> writes; it is modelled as a map from barcode to \<open>q\<close>.
\<close>

type_synonym cart_t = "(barcode \<times> cart_item) list"

record pos_state =
  products :: "barcode \<rightharpoonup> product"
  inventory :: "barcode \<rightharpoonup> pyfloat"
  cart :: cart_t
  subtotal :: pyfloat
  final_total :: pyfloat
  discount_entry :: "pyfloat entry"
  received_entry :: "pyfloat entry"

text \<open>
  Files. \<open>load_data\<close> returns the default document when the file is missing and when it
  does not parse. \<open>save_data\<close> opens the file with mode \<open>'w'\<close>, which empties it, and
  then writes the whole document. When the file cannot be opened the old document stays;
  when the write fails after the open, an empty or partial document is left, which no
  longer parses. Both failures are an IOError, which \<open>save_data\<close> reports in a dialog.
\<close>

datatype 'a file_state = Missing | Corrupt | Content 'a

datatype write_result = Written | OpenFailed | WriteFailed

record disk =
  products_db :: "(barcode \<rightharpoonup> product) file_state"
  inventory_db :: "(barcode \<rightharpoonup> pyfloat) file_state"
  sales_log_db :: "log_entry list file_state"
  receipt_files :: "(string \<times> string file_state) list"

definition load_data :: "'a file_state \<Rightarrow> 'a \<Rightarrow> 'a" where
  "load_data f dflt = (case f of Content x \<Rightarrow> x | Missing \<Rightarrow> dflt | Corrupt \<Rightarrow> dflt)"

definition save_data :: "write_result \<Rightarrow> 'a file_state \<Rightarrow> 'a \<Rightarrow> 'a file_state" where
  "save_data w f x =
     (case w of Written \<Rightarrow> Content x | OpenFailed \<Rightarrow> f | WriteFailed \<Rightarrow> Corrupt)"

text \<open>
  The dialogs the source shows (\<open>messagebox.showerror\<close>, \<open>showwarning\<close>, \<open>showinfo\<close>),
  named as the specification names them.
\<close>

datatype signal =
    InvalidQuantity
  | UnknownProduct
  | InsufficientStock
  | InvalidWeight
  | NotWeighted
  | NoSelection
  | LineNotFound
  | EmptyCart
  | InsufficientPayment
  | SaveFailure string
  | NegativeStockWarning string
  | CriticalInventoryMismatch string
  | ReceiptPersistFailure
  | CheckoutComplete "string option"

text \<open>
  The exceptions that leave a handler uncaught. Tk reports them on the console and the
  handler stops where it is.
\<close>

datatype py_exception = ValueError | OverflowError

text \<open>
  What a cart handler did: nothing, a rejection with its dialog, an exception that left
  it, or the mutation.
\<close>

datatype outcome = Ignored | Rejected signal | Raised py_exception | Done

section \<open>Pricing: \<open>update_total\<close>\<close>

text \<open>\<open>sum(...)\<close> adds the line totals from the left, starting at 0.\<close>

definition cart_sum :: "rounding \<Rightarrow> cart_t \<Rightarrow> pyfloat" where
  "cart_sum rnd c = foldl (fadd rnd) (Fin 0) (map (\<lambda>(b, item). line_total item) c)"

text \<open>
  The \<open>try\<close> block of \<open>update_total\<close>: the percent used, and the text left in the
  discount entry (reset to "0" only in the out-of-range branch).
\<close>

definition parse_discount :: "pyfloat entry \<Rightarrow> pyfloat \<times> pyfloat entry" where
  "parse_discount e =
     (case e of
        Number d \<Rightarrow> if \<not> (fle (Fin 0) d \<and> fle d (Fin 100)) then (Fin 0, Number (Fin 0))
                    else (d, Number d)
      | Blank \<Rightarrow> (Fin 0, Blank)
      | Garbage \<Rightarrow> (Fin 0, Garbage))"

definition update_total :: "rounding \<Rightarrow> pos_state \<Rightarrow> pos_state" where
  "update_total rnd st =
     (let sub = cart_sum rnd (cart st);
          (discount_percent, e) = parse_discount (discount_entry st);
          discount_amount = fmul rnd sub (fdiv_const rnd discount_percent 100)
      in st\<lparr>subtotal := sub, final_total := fsub rnd sub discount_amount,
            discount_entry := e\<rparr>)"

section \<open>Cart operations\<close>

definition stock_of :: "(barcode \<rightharpoonup> pyfloat) \<Rightarrow> barcode \<Rightarrow> pyfloat" where
  "stock_of ledger b = (case ledger b of None \<Rightarrow> Fin 0 | Some q \<Rightarrow> q)"

definition cart_qty :: "cart_t \<Rightarrow> barcode \<Rightarrow> pyfloat" where
  "cart_qty c b = (case map_of c b of None \<Rightarrow> Fin 0 | Some item \<Rightarrow> quantity item)"

text \<open>
  Line 362 of \<open>scan_item\<close>: \<open>cart_qty + quantity_to_add\<close>. Without a line for the
  barcode \<open>cart_qty\<close> is the int 0 and the sum is the int itself; with a line it is
  the line's float quantity, and the int is converted.
\<close>

definition unit_request :: "rounding \<Rightarrow> cart_t \<Rightarrow> barcode \<Rightarrow> int \<Rightarrow> py_exception + pyfloat" where
  "unit_request rnd c b quantity_to_add =
     (case map_of c b of
        None \<Rightarrow> Inr (Fin (of_int quantity_to_add))
      | Some old \<Rightarrow>
          if int_too_large quantity_to_add then Inl OverflowError
          else Inr (fadd rnd (quantity old) (float_of_int rnd quantity_to_add)))"

definition scan_item ::
  "rounding \<Rightarrow> barcode \<Rightarrow> int entry \<Rightarrow> pos_state \<Rightarrow> outcome \<times> pos_state" where
  "scan_item rnd b qty_text st =
     (if b = [] then (Ignored, st)
      else (case qty_text of
        Blank \<Rightarrow> (Rejected InvalidQuantity, st)
      | Garbage \<Rightarrow> (Rejected InvalidQuantity, st)
      | Number quantity_to_add \<Rightarrow>
          (if quantity_to_add \<le> 0 then (Rejected InvalidQuantity, st)
           else (case products st b of
             None \<Rightarrow> (Rejected UnknownProduct, st)
           | Some p \<Rightarrow>
               (case unit_request rnd (cart st) b quantity_to_add of
                  Inl ex \<Rightarrow> (Raised ex, st)
                | Inr requested \<Rightarrow>
                    (if flt (stock_of (inventory st) b) requested
                     then (Rejected InsufficientStock, st)
                     else if int_too_large quantity_to_add then (Raised OverflowError, st)
                     else
                       (let item = (case map_of (cart st) b of
                                      Some old \<Rightarrow>
                                        old\<lparr>quantity := fadd rnd (quantity old)
                                                            (float_of_int rnd quantity_to_add)\<rparr>
                                    | None \<Rightarrow> \<lparr>name = prod_name p, unit_price = price p,
                                                quantity = float_of_int rnd quantity_to_add,
                                                line_total = Fin 0, is_weighted = False\<rparr>);
                            item' = item\<lparr>line_total := fmul rnd (unit_price item) (quantity item)\<rparr>
                        in (Done,
                            update_total rnd (st\<lparr>cart := AList.update b item' (cart st)\<rparr>)))))))))"

definition starts_with_W :: "barcode \<Rightarrow> bool" where
  "starts_with_W b = (take 2 b = ''W-'')"

definition add_weighted_item ::
  "rounding \<Rightarrow> barcode \<Rightarrow> pyfloat entry \<Rightarrow> pos_state \<Rightarrow> outcome \<times> pos_state" where
  "add_weighted_item rnd b weight_text st =
     (case weight_text of
        Blank \<Rightarrow> (Rejected InvalidWeight, st)
      | Garbage \<Rightarrow> (Rejected InvalidWeight, st)
      | Number weight \<Rightarrow>
          (if \<not> starts_with_W b then (Rejected NotWeighted, st)
           else (case products st b of
             None \<Rightarrow> (Rejected UnknownProduct, st)
           | Some p \<Rightarrow>
               (if fle weight (Fin 0) then (Rejected InvalidWeight, st)
                else if flt (stock_of (inventory st) b) (fadd rnd (cart_qty (cart st) b) weight)
                then (Rejected InsufficientStock, st)
                else
                  (let line_price = fmul rnd (price p) weight;
                       item = (case map_of (cart st) b of
                                 Some old \<Rightarrow>
                                   old\<lparr>quantity := fadd rnd (quantity old) weight,
                                       line_total := fadd rnd (line_total old) line_price\<rparr>
                               | None \<Rightarrow> \<lparr>name = prod_name p, unit_price = price p,
                                           quantity = weight, line_total = line_price,
                                           is_weighted = True\<rparr>)
                   in (Done, update_total rnd (st\<lparr>cart := AList.update b item (cart st)\<rparr>)))))))"

text \<open>
  \<open>remove_selected_item\<close>: the selection is an index into the list of cart keys; the
  operator confirms the removal in a dialog.
\<close>

definition remove_selected_item ::
  "rounding \<Rightarrow> nat option \<Rightarrow> bool \<Rightarrow> pos_state \<Rightarrow> outcome \<times> pos_state" where
  "remove_selected_item rnd selection confirmed st =
     (case selection of
        None \<Rightarrow> (Rejected NoSelection, st)
      | Some i \<Rightarrow>
          (if i \<ge> length (cart st) then (Rejected LineNotFound, st)
           else if confirmed
           then (Done, update_total rnd
                         (st\<lparr>cart := AList.delete (fst (cart st ! i)) (cart st)\<rparr>))
           else (Ignored, st)))"

definition clear_cart :: "rounding \<Rightarrow> pos_state \<Rightarrow> pos_state" where
  "clear_cart rnd st =
     update_total rnd
       (st\<lparr>cart := [], discount_entry := Number (Fin 0), received_entry := Blank\<rparr>)"

definition refresh_data :: "disk \<Rightarrow> pos_state \<Rightarrow> pos_state" where
  "refresh_data d st =
     st\<lparr>products := load_data (products_db d) Map.empty,
        inventory := load_data (inventory_db d) Map.empty\<rparr>"

section \<open>The sales journal: \<open>log_sale\<close>\<close>

definition make_log_entry :: "string \<Rightarrow> barcode \<times> cart_item \<Rightarrow> log_entry" where
  "make_log_entry sale_time bi =
     (case bi of (b, item) \<Rightarrow>
        \<lparr>log_timestamp = sale_time, log_barcode = b, log_name = name item,
         log_quantity = quantity item, log_line_total = line_total item,
         log_is_weighted = is_weighted item\<rparr>)"

text \<open>
  \<open>sale_time\<close> is the one reading of the clock before the loop; \<open>w\<close> is what happens
  when \<open>save_data\<close> writes the file. A document that is missing, corrupt or (line 47) not
  a list is replaced by the empty list before the loop.
\<close>

definition log_sale :: "string \<Rightarrow> write_result \<Rightarrow> cart_t \<Rightarrow> disk \<Rightarrow> disk" where
  "log_sale sale_time w c d =
     (let sales_log = load_data (sales_log_db d) [];
          sales_log' = foldl (\<lambda>lg bi. lg @ [make_log_entry sale_time bi]) sales_log c
      in d\<lparr>sales_log_db := save_data w (sales_log_db d) sales_log'\<rparr>)"

section \<open>The stock ledger at commit\<close>

text \<open>
  The loop of \<open>checkout\<close> over the cart lines (lines 611 to 620), on the freshly loaded
  inventory: it returns the dialogs shown, in order, and the inventory as mutated.
\<close>

fun settle_stock ::
  "rounding \<Rightarrow> cart_t \<Rightarrow> (barcode \<rightharpoonup> pyfloat) \<Rightarrow> signal list \<times> (barcode \<rightharpoonup> pyfloat)" where
  "settle_stock rnd [] ledger = ([], ledger)"
| "settle_stock rnd ((b, item) # rest) ledger =
     (case ledger b of
        Some q \<Rightarrow>
          (let q' = fsub rnd q (quantity item);
               (msgs, final) = settle_stock rnd rest (ledger(b \<mapsto> q'))
           in ((if flt q' (Fin 0) then [NegativeStockWarning (name item)] else []) @ msgs,
               final))
      | None \<Rightarrow>
          (let (msgs, final) = settle_stock rnd rest ledger
           in (CriticalInventoryMismatch (name item) # msgs, final)))"

section \<open>The receipt: \<open>generate_receipt\<close>\<close>

text \<open>
  Python's format specifications as the source uses them: \<open>:<w\<close>, \<open>:>w\<close> and \<open>:^w\<close>
  pad with spaces and never truncate; \<open>.nf\<close> prints a finite number with \<open>n\<close>
  decimals, rounding half to even on the exact value, and prints \<open>nan\<close>, \<open>inf\<close> and
  \<open>-inf\<close> for the special values.
\<close>

definition ljust :: "nat \<Rightarrow> string \<Rightarrow> string" where
  "ljust w s = s @ replicate (w - length s) CHR '' ''"

definition rjust :: "nat \<Rightarrow> string \<Rightarrow> string" where
  "rjust w s = replicate (w - length s) CHR '' '' @ s"

definition center :: "nat \<Rightarrow> string \<Rightarrow> string" where
  "center w s =
     (let pad = w - length s; l = pad div 2
      in replicate l CHR '' '' @ s @ replicate (pad - l) CHR '' '')"

definition upper :: "string \<Rightarrow> string" where
  "upper s = map (\<lambda>c. if 97 \<le> (of_char c :: nat) \<and> (of_char c :: nat) \<le> 122
                        then char_of ((of_char c :: nat) - 32) else c) s"

fun nat_digits :: "nat \<Rightarrow> string" where
  "nat_digits n =
     (if n < 10 then [char_of (48 + n)]
      else nat_digits (n div 10) @ [char_of (48 + n mod 10)])"

definition round_half_even :: "real \<Rightarrow> int" where
  "round_half_even x =
     (let f = \<lfloor>x\<rfloor>; r = x - of_int f
      in if r < 1 / 2 then f else if 1 / 2 < r then f + 1
         else if even f then f else f + 1)"

definition fmt_real :: "nat \<Rightarrow> real \<Rightarrow> string" where
  "fmt_real n x =
     (let m = nat (round_half_even (\<bar>x\<bar> * 10 ^ n));
          frac = nat_digits (m mod 10 ^ n)
      in (if x < 0 then ''-'' else [])
         @ nat_digits (m div 10 ^ n)
         @ (if n = 0 then [] else ''.'' @ replicate (n - length frac) CHR ''0'' @ frac))"

fun fmt_f :: "nat \<Rightarrow> pyfloat \<Rightarrow> string" where
  "fmt_f n (Fin x) = fmt_real n x"
| "fmt_f n PInf = ''inf''"
| "fmt_f n NInf = ''-inf''"
| "fmt_f n NaN = ''nan''"

definition CURRENCY_SYMBOL :: string where
  "CURRENCY_SYMBOL = ''Rs.''"

definition join_lines :: "string list \<Rightarrow> string" where
  "join_lines ls = (case ls of [] \<Rightarrow> [] | l # rest \<Rightarrow> l @ concat (map (\<lambda>x. CHR 0x0A # x) rest))"

definition receipt_item_line :: "cart_item \<Rightarrow> string" where
  "receipt_item_line item =
     (let qty_display = (if \<not> is_weighted item then fmt_f 0 (quantity item)
                         else fmt_f 2 (quantity item) @ '' kg'');
          amount_display = CURRENCY_SYMBOL @ fmt_f 2 (line_total item)
      in ljust 8 qty_display @ ljust 24 (take 24 (name item)) @ rjust 8 amount_display)"

text \<open>
  What the handlers read from outside the model state: the operator's answer to the
  confirmation dialog, the clock (once in \<open>log_sale\<close>, twice in \<open>generate_receipt\<close>, each
  time already formatted as the source formats it), the shop name held by the
  application controller, and what happens to each file write. The receipts folder is
  there, or \<open>os.makedirs\<close> creates it.
\<close>

record env =
  confirm :: bool
  sale_time :: string
  log_write :: write_result
  inventory_write :: write_result
  shop_name_var :: string
  receipt_stamp :: string
  receipt_time :: string
  receipt_write :: write_result

definition receipt_lines ::
  "env \<Rightarrow> pos_state \<Rightarrow> pyfloat \<Rightarrow> pyfloat \<Rightarrow> pyfloat \<Rightarrow> pyfloat \<Rightarrow> pyfloat \<Rightarrow> string list" where
  "receipt_lines ev st total_due discount_amount discount_percent received_amount change_amount =
     [replicate 50 CHR ''='',
      '' '' @ center 38 (upper (shop_name_var ev)),
      replicate 50 CHR ''='',
      ''Date/Time: '' @ receipt_time ev,
      replicate 50 CHR ''-'',
      ljust 8 ''QTY'' @ ljust 24 ''ITEM'' @ rjust 8 ''AMOUNT'',
      replicate 50 CHR ''-'']
     @ map (\<lambda>(b, item). receipt_item_line item) (cart st)
     @ [replicate 50 CHR ''-'',
        ljust 30 ''Subtotal:'' @ CURRENCY_SYMBOL @ rjust 8 (fmt_f 2 (subtotal st)),
        ''Discount ('' @ fmt_f 0 discount_percent @ ''%): -'' @ CURRENCY_SYMBOL
          @ rjust 8 (fmt_f 2 discount_amount),
        ljust 30 ''TOTAL:'' @ CURRENCY_SYMBOL @ rjust 8 (fmt_f 2 total_due),
        replicate 50 CHR ''-'',
        ljust 30 ''Amount Paid:'' @ CURRENCY_SYMBOL @ rjust 8 (fmt_f 2 received_amount),
        ljust 30 ''Change Given:'' @ CURRENCY_SYMBOL @ rjust 8 (fmt_f 2 change_amount),
        replicate 50 CHR ''='',
        ''Thank you for shopping! Come Again!'',
        replicate 50 CHR ''='']"

text \<open>The text written to the receipt file: \<open>'\n'.join(receipt_lines)\<close>.\<close>

definition receipt_document ::
  "env \<Rightarrow> pos_state \<Rightarrow> pyfloat \<Rightarrow> pyfloat \<Rightarrow> pyfloat \<Rightarrow> pyfloat \<Rightarrow> pyfloat \<Rightarrow> string" where
  "receipt_document ev st total_due discount_amount discount_percent received_amount change_amount =
     join_lines (receipt_lines ev st total_due discount_amount discount_percent
                   received_amount change_amount)"

text \<open>
  The receipt file is opened with mode \<open>'w'\<close> as well: a write that fails after the open
  leaves an empty or partial text under the file's name. The handler returns the path
  only when the write succeeded.
\<close>

definition generate_receipt ::
  "env \<Rightarrow> pos_state \<Rightarrow> disk \<Rightarrow> pyfloat \<Rightarrow> pyfloat \<Rightarrow> pyfloat \<Rightarrow> pyfloat \<Rightarrow> pyfloat
     \<Rightarrow> string option \<times> disk" where
  "generate_receipt ev st d total_due discount_amount discount_percent received_amount change_amount =
     (let filepath = ''receipts/receipt_'' @ receipt_stamp ev @ ''.txt'';
          doc = receipt_document ev st total_due discount_amount discount_percent
                  received_amount change_amount
      in (case receipt_write ev of
            Written \<Rightarrow>
              (Some filepath,
               d\<lparr>receipt_files := AList.update filepath (Content doc) (receipt_files d)\<rparr>)
          | OpenFailed \<Rightarrow> (None, d)
          | WriteFailed \<Rightarrow>
              (None, d\<lparr>receipt_files := AList.update filepath Corrupt (receipt_files d)\<rparr>)))"

section \<open>Checkout\<close>

text \<open>Line 573 and 574: the discount percent as \<open>checkout\<close> reads it, outside any \<open>try\<close>.\<close>

definition checkout_discount :: "pyfloat entry \<Rightarrow> py_exception + pyfloat" where
  "checkout_discount e =
     (case e of
        Blank \<Rightarrow> Inr (Fin 0)
      | Garbage \<Rightarrow> Inl ValueError
      | Number d \<Rightarrow> Inr (if \<not> (fle (Fin 0) d \<and> fle d (Fin 100)) then Fin 0 else d))"

text \<open>Lines 580 to 583.\<close>

definition checkout_received :: "pyfloat entry \<Rightarrow> pyfloat" where
  "checkout_received e = (case e of Number r \<Rightarrow> r | Blank \<Rightarrow> Fin 0 | Garbage \<Rightarrow> Fin 0)"

text \<open>
  Lines 601 to 635: everything after the operator has confirmed. \<open>log_sale\<close> runs inside
  a \<open>try\<close> that reports any exception and goes on; in the model \<open>log_sale\<close> raises none,
  since \<open>save_data\<close> catches its own IOError.
\<close>

definition commit ::
  "rounding \<Rightarrow> env \<Rightarrow> pyfloat \<Rightarrow> pyfloat \<Rightarrow> pyfloat \<Rightarrow> pyfloat \<Rightarrow> pyfloat \<Rightarrow> pos_state \<times> disk
     \<Rightarrow> signal list \<times> pos_state \<times> disk" where
  "commit rnd ev total_due discount_amount discount_percent received_amount change_amount sd =
     (case sd of (st, d) \<Rightarrow>
       (let d1 = log_sale (sale_time ev) (log_write ev) (cart st) d;
            st1 = refresh_data d1 st;
            (msgs, ledger) = settle_stock rnd (cart st1) (inventory st1);
            st2 = st1\<lparr>inventory := ledger\<rparr>;
            d2 = d1\<lparr>inventory_db := save_data (inventory_write ev) (inventory_db d1) ledger\<rparr>;
            (filepath, d3) = generate_receipt ev st2 d2 total_due discount_amount discount_percent
                               received_amount change_amount
        in ((if log_write ev = Written then [] else [SaveFailure ''sales_log.json''])
            @ msgs
            @ (if inventory_write ev = Written then [] else [SaveFailure ''inventory.json''])
            @ (if filepath = None then [ReceiptPersistFailure] else [])
            @ [CheckoutComplete filepath],
            clear_cart rnd st2, d3)))"

text \<open>
  \<open>checkout\<close> returns \<open>Inl\<close> when an exception leaves the handler, and otherwise the list
  of dialogs it showed; the state and the disk are returned as they are at that moment.
\<close>

definition checkout ::
  "rounding \<Rightarrow> env \<Rightarrow> pos_state \<times> disk \<Rightarrow> (py_exception + signal list) \<times> pos_state \<times> disk" where
  "checkout rnd ev sd =
     (case sd of (st, d) \<Rightarrow>
       (if cart st = [] then (Inr [EmptyCart], st, d)
        else
          (let st1 = update_total rnd st
           in (case checkout_discount (discount_entry st1) of
                 Inl ex \<Rightarrow> (Inl ex, st1, d)
               | Inr discount_percent \<Rightarrow>
                   (let discount_amount =
                          fmul rnd (subtotal st1) (fdiv_const rnd discount_percent 100);
                        total_due = fsub rnd (subtotal st1) discount_amount;
                        received_amount = checkout_received (received_entry st1)
                    in if flt received_amount total_due then (Inr [InsufficientPayment], st1, d)
                       else if \<not> confirm ev then (Inr [], st1, d)
                       else (case commit rnd ev total_due discount_amount discount_percent
                                    received_amount (fsub rnd received_amount total_due)
                                    (st1, d) of
                               (msgs, st', d') \<Rightarrow> (Inr msgs, st', d')))))))"

section \<open>The checkout gates, the cart invariant, and example worlds\<close>

text \<open>
  The gates of \<open>checkout\<close> before the commit: a cart with a line, a discount entry that
  is empty or parses, a payment that is not below the total, and the operator's
  confirmation.
\<close>

definition reaches_commit :: "rounding \<Rightarrow> env \<Rightarrow> pos_state \<Rightarrow> bool" where
  "reaches_commit rnd ev st =
     (cart st \<noteq> [] \<and> discount_entry st \<noteq> Garbage \<and>
      \<not> flt (checkout_received (received_entry st)) (final_total (update_total rnd st)) \<and>
      confirm ev)"

text \<open>
  The invariant of the cart: every line's quantity is strictly positive, in the sense of
  the float comparison \<open>0 < quantity\<close>, and the stored subtotal is the sum of the line
  totals as \<open>update_total\<close> computes it.
\<close>

definition cart_invariant :: "rounding \<Rightarrow> pos_state \<Rightarrow> bool" where
  "cart_invariant rnd st =
     ((\<forall>(b, item) \<in> set (cart st). flt (Fin 0) (quantity item)) \<and>
      subtotal st = cart_sum rnd (cart st))"

text \<open>
  A shop with one unit product and one weighted product, as \<open>POSFrame.__init__\<close> leaves the
  state after its first \<open>refresh_data\<close>.
\<close>

definition shelf_disk :: disk where
  "shelf_disk =
     \<lparr>products_db = Content [''1001'' \<mapsto> \<lparr>prod_name = ''Milk'', price = Fin 50\<rparr>,
                              ''W-APPLE'' \<mapsto> \<lparr>prod_name = ''Apple'', price = Fin 80\<rparr>],
      inventory_db = Content [''1001'' \<mapsto> Fin 5, ''W-APPLE'' \<mapsto> Fin 10],
      sales_log_db = Missing,
      receipt_files = []\<rparr>"

definition initial_state :: pos_state where
  "initial_state =
     \<lparr>products = Map.empty, inventory = Map.empty, cart = [], subtotal = Fin 0,
      final_total = Fin 0, discount_entry = Number (Fin 0), received_entry = Blank\<rparr>"

definition shelf :: pos_state where
  "shelf = refresh_data shelf_disk initial_state"

definition till :: env where
  "till =
     \<lparr>confirm = True, sale_time = ''2025-01-01T10:00:00'', log_write = Written,
      inventory_write = Written, shop_name_var = ''Simple Grocery Shop'',
      receipt_stamp = ''20250101_100000'', receipt_time = ''2025-01-01 10:00:00'',
      receipt_write = Written\<rparr>"

text \<open>All the stock of both products is in the cart.\<close>

definition full_cart :: pos_state where
  "full_cart =
     snd (add_weighted_item exact ''W-APPLE'' (Number (Fin 10))
            (snd (scan_item exact ''1001'' (Number 5) shelf)))"

text \<open>One Milk at 50.00 in the cart.\<close>

definition one_milk :: pos_state where
  "one_milk = snd (scan_item exact ''1001'' (Number 1) shelf)"

text \<open>Scenario E of the specification: 40.00 received for a total of 50.00.\<close>

definition short_paid :: pos_state where
  "short_paid = one_milk\<lparr>received_entry := Number (Fin 40)\<rparr>"

text \<open>The operator has typed a text that is no number into the discount entry.\<close>

definition garbled_discount :: pos_state where
  "garbled_discount =
     one_milk\<lparr>discount_entry := Garbage, received_entry := Number (Fin 50)\<rparr>"

text \<open>
  The ledger file after the POS screen loaded it: all the Milk is gone from the file,
  the copy in \<open>shelf\<close> still says 5.
\<close>

definition emptied_disk :: disk where
  "emptied_disk =
     shelf_disk\<lparr>inventory_db := Content [''1001'' \<mapsto> Fin 0, ''W-APPLE'' \<mapsto> Fin 10]\<rparr>"

text \<open>
  The full cart, paid, at a moment when the ledger file holds 3 Milk and no entry for
  the apples.
\<close>

definition paid_full :: pos_state where
  "paid_full = full_cart\<lparr>received_entry := Number (Fin 2000)\<rparr>"

definition drifted_disk :: disk where
  "drifted_disk = shelf_disk\<lparr>inventory_db := Content [''1001'' \<mapsto> Fin 3]\<rparr>"

text \<open>A journal that already holds a sale, and a till whose journal write fails midway.\<close>

definition old_sale :: log_entry where
  "old_sale =
     \<lparr>log_timestamp = ''2024-12-31T18:30:00'', log_barcode = ''1001'', log_name = ''Milk'',
      log_quantity = Fin 2, log_line_total = Fin 100, log_is_weighted = False\<rparr>"

definition logged_disk :: disk where
  "logged_disk = shelf_disk\<lparr>sales_log_db := Content [old_sale]\<rparr>"

definition till_journal_fails :: env where
  "till_journal_fails = till\<lparr>log_write := WriteFailed\<rparr>"

text \<open>
  Apples at 80.00 per kg: 2.5 kg are weighed in; the catalog price is then changed to
  100.00 on the inventory screen and the POS screen is shown again, which runs
  \<open>refresh_data\<close> and keeps the cart; 1 kg more is weighed in.
\<close>

definition repriced_disk :: disk where
  "repriced_disk =
     shelf_disk\<lparr>products_db :=
       Content [''1001'' \<mapsto> \<lparr>prod_name = ''Milk'', price = Fin 50\<rparr>,
                ''W-APPLE'' \<mapsto> \<lparr>prod_name = ''Apple'', price = Fin 100\<rparr>]\<rparr>"

definition apples_weighed :: pos_state where
  "apples_weighed = snd (add_weighted_item exact ''W-APPLE'' (Number (Fin (5 / 2))) shelf)"

definition apples_repriced :: pos_state where
  "apples_repriced =
     snd (add_weighted_item exact ''W-APPLE'' (Number (Fin 1))
            (refresh_data repriced_disk apples_weighed))"

text \<open>The operator has typed \<open>nan\<close> into the weight entry.\<close>

definition nan_weighed :: pos_state where
  "nan_weighed = snd (add_weighted_item exact ''W-APPLE'' (Number NaN) shelf)"

text \<open>The same till one second later on the clock that dates the receipt.\<close>

definition later_till :: env where
  "later_till = till\<lparr>receipt_time := ''2025-01-01 10:00:01''\<rparr>"

section \<open>Properties\<close>

lemmas handler_defs =
  scan_item_def add_weighted_item_def update_total_def cart_sum_def parse_discount_def
  stock_of_def cart_qty_def starts_with_W_def refresh_data_def load_data_def save_data_def
  fsub_def float_of_int_def exact_def inf_times_def unit_request_def int_too_large_def
  Let_def

lemmas world_defs =
  shelf_def shelf_disk_def initial_state_def full_cart_def one_milk_def short_paid_def
  garbled_discount_def emptied_disk_def paid_full_def drifted_disk_def till_def
  old_sale_def logged_disk_def till_journal_fails_def repriced_disk_def apples_weighed_def
  apples_repriced_def nan_weighed_def later_till_def

subsection \<open>Stock check of the add handlers\<close>

text \<open>The quantity that \<open>scan_item\<close> compares with the stock.\<close>

lemma unit_request_cases:
  "map_of c b = None \<Longrightarrow> unit_request rnd c b q = Inr (Fin (of_int q))"
  "map_of c b = Some old \<Longrightarrow> \<not> int_too_large q \<Longrightarrow>
     unit_request rnd c b q = Inr (fadd rnd (cart_qty c b) (float_of_int rnd q))"
  "map_of c b = Some old \<Longrightarrow> int_too_large q \<Longrightarrow> unit_request rnd c b q = Inl OverflowError"
  by (simp_all add: unit_request_def cart_qty_def)




subsection \<open>Unit adds on weighted barcodes\<close>

lemma map_of_update_same: "map_of (AList.update k v al) k = Some v"
  by (simp add: update_conv')

text \<open>
  C10. The claim says that every successful \<open>scan_item\<close> leaves a line with
  \<open>is_weighted\<close> false and an integer quantity. When the barcode already has a weighted
  line, \<open>scan_item\<close> adds to its quantity and leaves its flag alone: 2.5 kg of apples and
  one unit add give a weighted line of 3.5.
\<close>

theorem add_unit_on_weighted_line_counterexample:
  "fst (scan_item exact ''W-APPLE'' (Number 1) apples_weighed) = Done \<and>
   map (\<lambda>(b, item). (b, quantity item, is_weighted item))
     (cart (snd (scan_item exact ''W-APPLE'' (Number 1) apples_weighed)))
   = [(''W-APPLE'', Fin (7 / 2), True)]"
  by (simp add: handler_defs world_defs)

text \<open>
  C10, amended. \<open>scan_item\<close> succeeds exactly when the barcode is not empty, the quantity
  is positive and within the float range, the product is in the catalog and the stock
  suffices: the \<open>W-\<close> prefix plays no part. On success a barcode with no line gets a line with \<open>is_weighted\<close> false and the
  integer count as quantity; a barcode with a line keeps that line's flag and has the count
  added to its quantity.
\<close>

theorem add_unit_ignores_prefix:
  "((fst (scan_item rnd b (Number q) st) = Done)
      = (b \<noteq> [] \<and> 0 < q \<and> b \<in> dom (products st) \<and> \<not> int_too_large q \<and>
         (\<exists>requested. unit_request rnd (cart st) b q = Inr requested \<and>
            \<not> flt (stock_of (inventory st) b) requested)))
   \<and> (fst (scan_item rnd b (Number q) st) = Done \<longrightarrow>
        (\<exists>item. map_of (cart (snd (scan_item rnd b (Number q) st))) b = Some item \<and>
           (case map_of (cart st) b of
              None \<Rightarrow> \<not> is_weighted item \<and> quantity item = float_of_int rnd q
            | Some old \<Rightarrow> is_weighted item = is_weighted old \<and>
                quantity item = fadd rnd (quantity old) (float_of_int rnd q))))"
  by (auto simp add: scan_item_def update_total_def Let_def map_of_update_same
           split: option.splits if_splits prod.splits sum.splits)

theorem add_unit_ignores_prefix_witness:
  "starts_with_W ''W-APPLE'' \<and>
   fst (scan_item exact ''W-APPLE'' (Number 2) shelf) = Done \<and>
   (\<exists>item. map_of (cart (snd (scan_item exact ''W-APPLE'' (Number 2) shelf))) ''W-APPLE''
              = Some item \<and>
      \<not> is_weighted item \<and> quantity item = Fin 2)"
proof -
  have w: "starts_with_W ''W-APPLE''" by (simp add: starts_with_W_def)
  have ok: "''W-APPLE'' \<noteq> [] \<and> (0::int) < 2 \<and> ''W-APPLE'' \<in> dom (products shelf) \<and>
         \<not> int_too_large 2 \<and>
         unit_request exact (cart shelf) ''W-APPLE'' 2 = Inr (Fin 2) \<and>
         \<not> flt (stock_of (inventory shelf) ''W-APPLE'') (Fin 2)"
    by (simp add: handler_defs world_defs)
  have none: "map_of (cart shelf) ''W-APPLE'' = None"
    by (simp add: handler_defs world_defs)
  have two: "float_of_int exact 2 = Fin 2"
    by (simp add: float_of_int_def exact_def)
  show ?thesis
    using add_unit_ignores_prefix [of exact "''W-APPLE''" 2 shelf] w ok none two by simp
qed

subsection \<open>The discount entry\<close>

text \<open>
  What holds on both paths: \<open>update_total\<close> takes an empty, unparseable or out-of-range
  percent (NaN included) as 0 and cannot raise; \<open>checkout\<close> takes an empty or
  out-of-range percent as 0.
\<close>

lemma update_total_invalid_discount:
  "discount_entry st = Blank \<or> discount_entry st = Garbage \<or>
   (\<exists>d. discount_entry st = Number d \<and> \<not> (fle (Fin 0) d \<and> fle d (Fin 100))) \<Longrightarrow>
     fst (parse_discount (discount_entry st)) = Fin 0"
  by (auto simp add: parse_discount_def)

lemma checkout_discount_invalid:
  "checkout_discount Blank = Inr (Fin 0)"
  "\<not> (fle (Fin 0) d \<and> fle d (Fin 100)) \<Longrightarrow> checkout_discount (Number d) = Inr (Fin 0)"
  by (simp_all add: checkout_discount_def)

text \<open>
  C6. With a non-empty text that is no number in the discount entry, \<open>update_total\<close>
  takes the percent as 0 (the final total is the subtotal, 50.00), but \<open>checkout\<close> reads
  the entry again outside any \<open>try\<close> and leaves with a ValueError: nothing is sold,
  although 50.00 was received for a total of 50.00.
\<close>

theorem checkout_garbled_discount_raises:
  "final_total (update_total exact garbled_discount) = Fin 50 \<and>
   subtotal (update_total exact garbled_discount) = Fin 50 \<and>
   fst (checkout exact till (garbled_discount, shelf_disk)) = Inl ValueError"
  by (simp add: handler_defs world_defs checkout_def checkout_discount_def)

subsection \<open>The payment gate\<close>

lemma commit_msgs_not_payment:
  "commit rnd ev t da dp r c sd = (m, s', d') \<Longrightarrow> m \<noteq> [InsufficientPayment]"
  by (auto simp add: commit_def Let_def split: prod.splits if_splits)

lemma update_total_frame:
  "cart (update_total rnd st) = cart st" "inventory (update_total rnd st) = inventory st"
  "received_entry (update_total rnd st) = received_entry st"
  "products (update_total rnd st) = products st"
  by (simp_all add: update_total_def Let_def split: prod.splits)

lemma checkout_discount_total:
  "discount_entry st \<noteq> Garbage \<Longrightarrow>
     \<exists>dp. checkout_discount (discount_entry (update_total rnd st)) = Inr dp \<and>
          fsub rnd (subtotal (update_total rnd st))
            (fmul rnd (subtotal (update_total rnd st)) (fdiv_const rnd dp 100))
            = final_total (update_total rnd st)"
  by (cases "discount_entry st")
     (auto simp add: checkout_discount_def update_total_def parse_discount_def Let_def)

text \<open>
  C2. For a checkout that reaches the payment gate (a cart with a line, a discount entry
  that is empty or parses), the answer is InsufficientPayment exactly when the amount
  received is strictly below the final total; and then the files (ledger, journal,
  receipts), the cart and the in-memory inventory are as they were.
\<close>

theorem insufficient_payment_gate:
  "cart st \<noteq> [] \<and> discount_entry st \<noteq> Garbage \<longrightarrow>
     ((fst (checkout rnd ev (st, d)) = Inr [InsufficientPayment])
        = flt (checkout_received (received_entry st)) (final_total (update_total rnd st)))
     \<and> (fst (checkout rnd ev (st, d)) = Inr [InsufficientPayment] \<longrightarrow>
          snd (snd (checkout rnd ev (st, d))) = d \<and>
          cart (fst (snd (checkout rnd ev (st, d)))) = cart st \<and>
          inventory (fst (snd (checkout rnd ev (st, d)))) = inventory st)"
proof (intro impI, elim conjE)
  assume ne: "cart st \<noteq> []" and g: "discount_entry st \<noteq> Garbage"
  from checkout_discount_total [OF g, of rnd] obtain dp where
    dp: "checkout_discount (discount_entry (update_total rnd st)) = Inr dp"
    and tot: "fsub rnd (subtotal (update_total rnd st))
                (fmul rnd (subtotal (update_total rnd st)) (fdiv_const rnd dp 100))
                = final_total (update_total rnd st)"
    by blast
  show "((fst (checkout rnd ev (st, d)) = Inr [InsufficientPayment])
        = flt (checkout_received (received_entry st)) (final_total (update_total rnd st)))
     \<and> (fst (checkout rnd ev (st, d)) = Inr [InsufficientPayment] \<longrightarrow>
          snd (snd (checkout rnd ev (st, d))) = d \<and>
          cart (fst (snd (checkout rnd ev (st, d)))) = cart st \<and>
          inventory (fst (snd (checkout rnd ev (st, d)))) = inventory st)"
  proof (cases "flt (checkout_received (received_entry st)) (final_total (update_total rnd st))")
    case True
    then have "checkout rnd ev (st, d) = (Inr [InsufficientPayment], update_total rnd st, d)"
      using ne dp tot by (simp add: checkout_def Let_def update_total_frame)
    then show ?thesis using True by (simp add: update_total_frame)
  next
    case False
    then have "fst (checkout rnd ev (st, d)) \<noteq> Inr [InsufficientPayment]"
      using ne dp tot
      by (auto simp add: checkout_def Let_def update_total_frame split: prod.splits
               dest: commit_msgs_not_payment)
    then show ?thesis using False by simp
  qed
qed

theorem insufficient_payment_gate_witness:
  "cart short_paid \<noteq> [] \<and> discount_entry short_paid \<noteq> Garbage \<and>
   flt (checkout_received (received_entry short_paid))
       (final_total (update_total exact short_paid)) \<and>
   fst (checkout exact till (short_paid, shelf_disk)) = Inr [InsufficientPayment] \<and>
   snd (snd (checkout exact till (short_paid, shelf_disk))) = shelf_disk \<and>
   cart (fst (snd (checkout exact till (short_paid, shelf_disk)))) = cart short_paid \<and>
   inventory (fst (snd (checkout exact till (short_paid, shelf_disk)))) = inventory short_paid"
proof -
  have a: "cart short_paid \<noteq> []" "discount_entry short_paid \<noteq> Garbage"
    by (simp_all add: handler_defs world_defs)
  have b: "flt (checkout_received (received_entry short_paid))
               (final_total (update_total exact short_paid))"
    by (simp add: handler_defs world_defs checkout_received_def)
  show ?thesis
    using insufficient_payment_gate [of short_paid exact till shelf_disk] a b by simp
qed

subsection \<open>The stock ledger at commit\<close>

lemma settle_stock_snd:
  "snd (settle_stock rnd ((b, item) # rest) l) =
     (case l b of Some q \<Rightarrow> snd (settle_stock rnd rest (l(b \<mapsto> fsub rnd q (quantity item))))
      | None \<Rightarrow> snd (settle_stock rnd rest l))"
  by (simp add: Let_def split: option.splits prod.splits)

lemma settle_stock_fst:
  "fst (settle_stock rnd ((b, item) # rest) l) =
     (case l b of
        Some q \<Rightarrow> (if flt (fsub rnd q (quantity item)) (Fin 0) then [NegativeStockWarning (name item)] else [])
                    @ fst (settle_stock rnd rest (l(b \<mapsto> fsub rnd q (quantity item))))
      | None \<Rightarrow> CriticalInventoryMismatch (name item) # fst (settle_stock rnd rest l))"
  by (simp add: Let_def split: option.splits prod.splits)

lemma settle_stock_absent:
  "(snd (settle_stock rnd c l) b = None) = (l b = None)"
proof (induction c arbitrary: l)
  case Nil
  show ?case by simp
next
  case (Cons x c)
  obtain b' item' where x: "x = (b', item')" by (cases x)
  show ?case
    unfolding x settle_stock_snd using Cons.IH by (cases "l b'") auto
qed

lemma settle_stock_other:
  "b \<notin> fst ` set c \<Longrightarrow> snd (settle_stock rnd c l) b = l b"
proof (induction c arbitrary: l)
  case Nil
  show ?case by simp
next
  case (Cons x c)
  obtain b' item' where x: "x = (b', item')" by (cases x)
  from Cons.prems have "b \<noteq> b'" "b \<notin> fst ` set c" by (auto simp add: x)
  then show ?case
    unfolding x settle_stock_snd using Cons.IH by (cases "l b'") auto
qed

lemma settle_stock_line:
  "distinct (map fst c) \<Longrightarrow> (b, item) \<in> set c \<Longrightarrow> l b = Some q \<Longrightarrow>
     snd (settle_stock rnd c l) b = Some (fsub rnd q (quantity item))"
proof (induction c arbitrary: l)
  case Nil
  then show ?case by simp
next
  case (Cons x c)
  obtain b' item' where x: "x = (b', item')" by (cases x)
  have d: "distinct (map fst c)" and fresh: "b' \<notin> fst ` set c"
    using Cons.prems(1) by (simp_all add: x)
  show ?case
  proof (cases "(b, item) = (b', item')")
    case True
    then show ?thesis
      unfolding x settle_stock_snd using Cons.prems(3) fresh
      by (simp add: settle_stock_other)
  next
    case False
    then have mem: "(b, item) \<in> set c" using Cons.prems(2) by (auto simp add: x)
    then have neq: "b \<noteq> b'" using fresh by force
    show ?thesis
    proof (cases "l b'")
      case None
      then show ?thesis
        unfolding x settle_stock_snd using Cons.IH [of l, OF d mem Cons.prems(3)] by simp
    next
      case (Some q')
      have "(l(b' \<mapsto> fsub rnd q' (quantity item'))) b = Some q" using neq Cons.prems(3) by simp
      from Cons.IH [of "l(b' \<mapsto> fsub rnd q' (quantity item'))", OF d mem this]
      have ih: "snd (settle_stock rnd c (l(b' \<mapsto> fsub rnd q' (quantity item')))) b
                  = Some (fsub rnd q (quantity item))" .
      show ?thesis
        unfolding x settle_stock_snd using Some ih by simp
    qed
  qed
qed

lemma settle_stock_missing:
  "(b, item) \<in> set c \<Longrightarrow> l b = None \<Longrightarrow>
     CriticalInventoryMismatch (name item) \<in> set (fst (settle_stock rnd c l))"
proof (induction c arbitrary: l)
  case Nil
  then show ?case by simp
next
  case (Cons x c)
  obtain b' item' where x: "x = (b', item')" by (cases x)
  show ?case
  proof (cases "(b, item) = (b', item')")
    case True
    then show ?thesis unfolding x settle_stock_fst using Cons.prems(2) by simp
  next
    case False
    then have mem: "(b, item) \<in> set c" using Cons.prems(1) by (auto simp add: x)
    show ?thesis
    proof (cases "l b'")
      case None
      then show ?thesis
        unfolding x settle_stock_fst using Cons.IH [of l, OF mem Cons.prems(2)] by simp
    next
      case (Some q')
      then have "b \<noteq> b'" using Cons.prems(2) by auto
      then have "(l(b' \<mapsto> fsub rnd q' (quantity item'))) b = None" using Cons.prems(2) by simp
      from Cons.IH [of "l(b' \<mapsto> fsub rnd q' (quantity item'))", OF mem this]
      have ih: "CriticalInventoryMismatch (name item)
                  \<in> set (fst (settle_stock rnd c (l(b' \<mapsto> fsub rnd q' (quantity item')))))" .
      show ?thesis
        unfolding x settle_stock_fst using Some ih by simp
    qed
  qed
qed

lemma settle_stock_negative:
  "distinct (map fst c) \<Longrightarrow> (b, item) \<in> set c \<Longrightarrow> l b = Some q \<Longrightarrow> flt (fsub rnd q (quantity item)) (Fin 0) \<Longrightarrow>
     NegativeStockWarning (name item) \<in> set (fst (settle_stock rnd c l))"
proof (induction c arbitrary: l)
  case Nil
  then show ?case by simp
next
  case (Cons x c)
  obtain b' item' where x: "x = (b', item')" by (cases x)
  have d: "distinct (map fst c)" and fresh: "b' \<notin> fst ` set c"
    using Cons.prems(1) by (simp_all add: x)
  show ?case
  proof (cases "(b, item) = (b', item')")
    case True
    then show ?thesis
      unfolding x settle_stock_fst using Cons.prems(3,4) by simp
  next
    case False
    then have mem: "(b, item) \<in> set c" using Cons.prems(2) by (auto simp add: x)
    then have neq: "b \<noteq> b'" using fresh by force
    show ?thesis
    proof (cases "l b'")
      case None
      then show ?thesis
        unfolding x settle_stock_fst using Cons.IH [of l, OF d mem Cons.prems(3,4)] by simp
    next
      case (Some q')
      have "(l(b' \<mapsto> fsub rnd q' (quantity item'))) b = Some q" using neq Cons.prems(3) by simp
      from Cons.IH [of "l(b' \<mapsto> fsub rnd q' (quantity item'))", OF d mem this Cons.prems(4)]
      have ih: "NegativeStockWarning (name item)
                  \<in> set (fst (settle_stock rnd c (l(b' \<mapsto> fsub rnd q' (quantity item')))))" .
      show ?thesis
        unfolding x settle_stock_fst using Some ih by simp
    qed
  qed
qed

text \<open>A checkout that passes the gates returns what \<open>commit\<close> returns.\<close>

lemma checkout_commits:
  assumes "reaches_commit rnd ev st"
  shows "\<exists>t da dp r c. checkout rnd ev (st, d) =
           (Inr (fst (commit rnd ev t da dp r c (update_total rnd st, d))),
            snd (commit rnd ev t da dp r c (update_total rnd st, d)))"
proof -
  from assms have ne: "cart st \<noteq> []" and g: "discount_entry st \<noteq> Garbage"
    and pay: "\<not> flt (checkout_received (received_entry st)) (final_total (update_total rnd st))"
    and cf: "confirm ev"
    by (simp_all add: reaches_commit_def)
  from checkout_discount_total [OF g, of rnd] obtain dp where
    dp: "checkout_discount (discount_entry (update_total rnd st)) = Inr dp"
    and tot: "fsub rnd (subtotal (update_total rnd st))
                (fmul rnd (subtotal (update_total rnd st)) (fdiv_const rnd dp 100))
                = final_total (update_total rnd st)"
    by blast
  let ?st1 = "update_total rnd st"
  let ?r = "checkout_received (received_entry st)"
  have "checkout rnd ev (st, d) =
          (case commit rnd ev (final_total ?st1) (fmul rnd (subtotal ?st1) (fdiv_const rnd dp 100)) dp ?r
                  (fsub rnd ?r (final_total ?st1)) (?st1, d) of
             (msgs, st', d') \<Rightarrow> (Inr msgs, st', d'))"
    using ne dp tot pay cf by (simp add: checkout_def Let_def update_total_frame)
  then have "checkout rnd ev (st, d) =
          (Inr (fst (commit rnd ev (final_total ?st1) (fmul rnd (subtotal ?st1) (fdiv_const rnd dp 100)) dp ?r
                  (fsub rnd ?r (final_total ?st1)) (?st1, d))),
           snd (commit rnd ev (final_total ?st1) (fmul rnd (subtotal ?st1) (fdiv_const rnd dp 100)) dp ?r
                  (fsub rnd ?r (final_total ?st1)) (?st1, d)))"
    by (simp split: prod.splits)
  then show ?thesis by blast
qed

lemma generate_receipt_frame:
  "generate_receipt ev st d t da dp r c = (fp, d') \<Longrightarrow>
     inventory_db d' = inventory_db d \<and> sales_log_db d' = sales_log_db d \<and>
     products_db d' = products_db d"
  by (auto simp add: generate_receipt_def Let_def split: write_result.splits)

lemma commit_inventory:
  assumes "commit rnd ev t da dp r c (st, d) = (msgs, st', d')"
  shows "inventory st' = snd (settle_stock rnd (cart st) (load_data (inventory_db d) Map.empty))"
    and "set (fst (settle_stock rnd (cart st) (load_data (inventory_db d) Map.empty)))
           \<subseteq> set msgs"
    and "inventory_write ev = Written \<longrightarrow> inventory_db d' = Content (inventory st')"
  using assms
  by (auto simp add: commit_def Let_def log_sale_def refresh_data_def clear_cart_def
        update_total_def save_data_def
        split: prod.splits if_splits dest!: generate_receipt_frame)

text \<open>
  C1. A checkout that passes its gates re-loads the ledger file and, for every cart line
  whose barcode is in the ledger, leaves the entry at its loaded value minus the line's
  quantity; when that is negative a NegativeStockWarning for the line is among the
  dialogs and the negative value stays; a line whose barcode is absent from the ledger
  gives a CriticalInventoryMismatch dialog and no entry, and the other lines are settled
  all the same. Entries of barcodes outside the cart are untouched, and the resulting
  ledger is what \<open>save_data\<close> writes (when the file can be written). The cart is a
  dict, so its barcodes are distinct.
\<close>

theorem checkout_settles_stock:
  assumes "reaches_commit rnd ev st" and "distinct (map fst (cart st))"
    and "checkout rnd ev (st, d) = (res, st', d')"
  shows "\<exists>msgs. res = Inr msgs \<and>
     (\<forall>(b, item) \<in> set (cart st).
        (case load_data (inventory_db d) Map.empty b of
           Some q \<Rightarrow> inventory st' b = Some (fsub rnd q (quantity item)) \<and>
             (flt (fsub rnd q (quantity item)) (Fin 0) \<longrightarrow> NegativeStockWarning (name item) \<in> set msgs)
         | None \<Rightarrow> inventory st' b = None \<and>
             CriticalInventoryMismatch (name item) \<in> set msgs)) \<and>
     (\<forall>b. b \<notin> fst ` set (cart st) \<longrightarrow> inventory st' b = load_data (inventory_db d) Map.empty b) \<and>
     (inventory_write ev = Written \<longrightarrow> inventory_db d' = Content (inventory st'))"
proof -
  from checkout_commits [OF assms(1), of d] obtain t da dp r c where
    co: "checkout rnd ev (st, d) = (Inr (fst (commit rnd ev t da dp r c (update_total rnd st, d))),
            snd (commit rnd ev t da dp r c (update_total rnd st, d)))" by blast
  define msgs where "msgs = fst (commit rnd ev t da dp r c (update_total rnd st, d))"
  have cm: "commit rnd ev t da dp r c (update_total rnd st, d) = (msgs, st', d')"
    using co assms(3) by (simp add: msgs_def prod_eq_iff)
  have res: "res = Inr msgs" using co assms(3) by (simp add: msgs_def)
  let ?l = "load_data (inventory_db d) Map.empty"
  from commit_inventory [OF cm] have
    inv: "inventory st' = snd (settle_stock rnd (cart st) ?l)"
    and sub: "set (fst (settle_stock rnd (cart st) ?l)) \<subseteq> set msgs"
    and per: "inventory_write ev = Written \<longrightarrow> inventory_db d' = Content (inventory st')"
    by (simp_all add: update_total_frame)
  have lines: "\<forall>(b, item) \<in> set (cart st).
        (case ?l b of
           Some q \<Rightarrow> inventory st' b = Some (fsub rnd q (quantity item)) \<and>
             (flt (fsub rnd q (quantity item)) (Fin 0) \<longrightarrow> NegativeStockWarning (name item) \<in> set msgs)
         | None \<Rightarrow> inventory st' b = None \<and>
             CriticalInventoryMismatch (name item) \<in> set msgs)"
  proof (clarify)
    fix b item assume mem: "(b, item) \<in> set (cart st)"
    show "case ?l b of
           Some q \<Rightarrow> inventory st' b = Some (fsub rnd q (quantity item)) \<and>
             (flt (fsub rnd q (quantity item)) (Fin 0) \<longrightarrow> NegativeStockWarning (name item) \<in> set msgs)
         | None \<Rightarrow> inventory st' b = None \<and>
             CriticalInventoryMismatch (name item) \<in> set msgs"
    proof (cases "?l b")
      case None
      then show ?thesis
        using settle_stock_missing [where c = "cart st" and l = ?l and rnd = rnd, OF mem None] sub inv
              settle_stock_absent [where c = "cart st" and l = ?l and b = b and rnd = rnd]
        by auto
    next
      case (Some q)
      then show ?thesis
        using settle_stock_line [where l = ?l and rnd = rnd, OF assms(2) mem Some]
              settle_stock_negative [where l = ?l and rnd = rnd, OF assms(2) mem Some] sub inv
        by auto
    qed
  qed
  have others: "\<forall>b. b \<notin> fst ` set (cart st) \<longrightarrow> inventory st' b = ?l b"
    using inv settle_stock_other by simp
  show ?thesis using res lines others per by blast
qed


theorem checkout_settles_stock_witness:
  "reaches_commit exact till paid_full \<and> distinct (map fst (cart paid_full)) \<and>
   (\<exists>msgs. fst (checkout exact till (paid_full, drifted_disk)) = Inr msgs \<and>
      NegativeStockWarning ''Milk'' \<in> set msgs \<and>
      CriticalInventoryMismatch ''Apple'' \<in> set msgs) \<and>
   inventory (fst (snd (checkout exact till (paid_full, drifted_disk)))) ''1001''
     = Some (Fin (- 2)) \<and>
   inventory (fst (snd (checkout exact till (paid_full, drifted_disk)))) ''W-APPLE'' = None \<and>
   inventory_db (snd (snd (checkout exact till (paid_full, drifted_disk))))
     = Content (inventory (fst (snd (checkout exact till (paid_full, drifted_disk)))))"
proof -
  have c: "cart paid_full =
             [(''1001'', \<lparr>name = ''Milk'', unit_price = Fin 50, quantity = Fin 5,
                          line_total = Fin 250, is_weighted = False\<rparr>),
              (''W-APPLE'', \<lparr>name = ''Apple'', unit_price = Fin 80, quantity = Fin 10,
                             line_total = Fin 800, is_weighted = True\<rparr>)]"
    by (simp add: handler_defs world_defs)
  have r: "reaches_commit exact till paid_full"
    by (simp add: reaches_commit_def checkout_received_def handler_defs world_defs)
  have d: "distinct (map fst (cart paid_full))"
    by (simp add: c)
  have l: "load_data (inventory_db drifted_disk) Map.empty ''1001'' = Some (Fin 3)"
          "load_data (inventory_db drifted_disk) Map.empty ''W-APPLE'' = None"
    by (simp_all add: load_data_def drifted_disk_def shelf_disk_def)
  have w: "inventory_write till = Written" by (simp add: till_def)
  have e: "checkout exact till (paid_full, drifted_disk) =
             (fst (checkout exact till (paid_full, drifted_disk)),
              fst (snd (checkout exact till (paid_full, drifted_disk))),
              snd (snd (checkout exact till (paid_full, drifted_disk))))"
    by simp
  show ?thesis
    using checkout_settles_stock [OF r d e] r d l w
    by (auto simp add: c fsub_def exact_def)
qed

subsection \<open>Where the stock of the add handlers comes from\<close>

lemma checkout_not_committed:
  assumes "\<not> reaches_commit rnd ev st"
  shows "inventory (fst (snd (checkout rnd ev (st, d)))) = inventory st"
    and "snd (snd (checkout rnd ev (st, d))) = d"
proof -
  have "inventory (fst (snd (checkout rnd ev (st, d)))) = inventory st \<and>
        snd (snd (checkout rnd ev (st, d))) = d"
  proof (cases "cart st = []")
    case True
    then show ?thesis by (simp add: checkout_def)
  next
    case ne: False
    show ?thesis
    proof (cases "discount_entry st = Garbage")
      case True
      then have "checkout_discount (discount_entry (update_total rnd st)) = Inl ValueError"
        by (simp add: update_total_def parse_discount_def checkout_discount_def Let_def)
      with ne show ?thesis by (simp add: checkout_def Let_def update_total_frame)
    next
      case g: False
      from checkout_discount_total [OF g, of rnd] obtain dp where
        dp: "checkout_discount (discount_entry (update_total rnd st)) = Inr dp"
        and tot: "fsub rnd (subtotal (update_total rnd st))
                    (fmul rnd (subtotal (update_total rnd st)) (fdiv_const rnd dp 100))
                    = final_total (update_total rnd st)"
        by blast
      from assms ne g have
        "flt (checkout_received (received_entry st)) (final_total (update_total rnd st))
         \<or> \<not> confirm ev"
        by (simp add: reaches_commit_def)
      with ne dp tot show ?thesis
        by (auto simp add: checkout_def Let_def update_total_frame)
    qed
  qed
  then show "inventory (fst (snd (checkout rnd ev (st, d)))) = inventory st"
    and "snd (snd (checkout rnd ev (st, d))) = d"
    by simp_all
qed

lemma checkout_committed_inventory:
  assumes "reaches_commit rnd ev st"
  shows "inventory (fst (snd (checkout rnd ev (st, d))))
           = snd (settle_stock rnd (cart st) (load_data (inventory_db d) Map.empty))"
proof -
  from checkout_commits [OF assms, of d] obtain t da dp r c where
    co: "checkout rnd ev (st, d) =
           (Inr (fst (commit rnd ev t da dp r c (update_total rnd st, d))),
            snd (commit rnd ev t da dp r c (update_total rnd st, d)))" by blast
  have cm: "commit rnd ev t da dp r c (update_total rnd st, d)
              = (fst (commit rnd ev t da dp r c (update_total rnd st, d)),
                 fst (snd (checkout rnd ev (st, d))), snd (snd (checkout rnd ev (st, d))))"
    using co by (simp add: prod_eq_iff)
  from commit_inventory(1) [OF cm] show ?thesis by (simp add: update_total_frame)
qed

text \<open>
  C3. The claim says that the stock compared in \<open>scan_item\<close> is read from the ledger file
  at the time of the call. The source reads \<open>self.inventory\<close>, the copy held in memory.
  Here the copy was loaded from a file with 5 Milk, the file now holds 0, and one Milk is
  still added.
\<close>

theorem add_unit_stock_is_cached_counterexample:
  "inventory shelf = load_data (inventory_db shelf_disk) Map.empty \<and>
   unit_request exact (cart shelf) ''1001'' 1 = Inr (Fin 1) \<and>
   flt (stock_of (load_data (inventory_db emptied_disk) Map.empty) ''1001'') (Fin 1) \<and>
   fst (scan_item exact ''1001'' (Number 1) shelf) = Done"
  by (simp add: handler_defs world_defs)

text \<open>
  C3, amended. For a call that passes the earlier checks, \<open>scan_item\<close> answers
  InsufficientStock exactly when the quantity held in the in-memory inventory (0 when the
  barcode is absent) is below cart quantity plus request, as line 362 computes it. That inventory is not read
  from the file at the call. It is assigned in two places only: \<open>refresh_data\<close> sets it
  to the ledger document as loaded, and a checkout that passes its gates sets it to the
  freshly loaded document with the sold quantities subtracted by the commit loop. A
  checkout that stops at a gate and the four cart handlers leave it as it is.
\<close>

theorem add_unit_stock_source:
  "(b \<noteq> [] \<and> 0 < q \<and> b \<in> dom (products st) \<longrightarrow>
      (fst (scan_item rnd b (Number q) st) = Rejected InsufficientStock)
       = (\<exists>requested. unit_request rnd (cart st) b q = Inr requested \<and>
            flt (stock_of (inventory st) b) requested))
   \<and> inventory (refresh_data d st) = load_data (inventory_db d) Map.empty
   \<and> (reaches_commit rnd ev st \<longrightarrow>
        inventory (fst (snd (checkout rnd ev (st, d))))
          = snd (settle_stock rnd (cart st) (load_data (inventory_db d) Map.empty)))
   \<and> (\<not> reaches_commit rnd ev' st' \<longrightarrow>
        inventory (fst (snd (checkout rnd ev' (st', d')))) = inventory st')
   \<and> inventory (snd (scan_item rnd b qt st)) = inventory st
   \<and> inventory (snd (add_weighted_item rnd wb wt st)) = inventory st
   \<and> inventory (snd (remove_selected_item rnd sel cf st)) = inventory st
   \<and> inventory (clear_cart rnd st) = inventory st"
proof -
  have gate: "b \<noteq> [] \<and> 0 < q \<and> b \<in> dom (products st) \<longrightarrow>
      (fst (scan_item rnd b (Number q) st) = Rejected InsufficientStock)
       = (\<exists>requested. unit_request rnd (cart st) b q = Inr requested \<and>
            flt (stock_of (inventory st) b) requested)"
    by (auto simp add: scan_item_def Let_def split: option.splits sum.splits)
  have load: "inventory (refresh_data d st) = load_data (inventory_db d) Map.empty"
    by (simp add: refresh_data_def)
  have h1: "inventory (snd (scan_item rnd b qt st)) = inventory st"
    by (auto simp add: scan_item_def Let_def update_total_frame
          split: entry.splits option.splits sum.splits)
  have h2: "inventory (snd (add_weighted_item rnd wb wt st)) = inventory st"
    by (auto simp add: add_weighted_item_def Let_def update_total_frame
          split: entry.splits option.splits)
  have h3: "inventory (snd (remove_selected_item rnd sel cf st)) = inventory st"
    by (auto simp add: remove_selected_item_def update_total_frame split: option.splits)
  have h4: "inventory (clear_cart rnd st) = inventory st"
    by (simp add: clear_cart_def update_total_frame)
  show ?thesis
    using gate load h1 h2 h3 h4 checkout_committed_inventory [of rnd ev st d]
          checkout_not_committed(1) [of rnd ev' st' d']
    by blast
qed

theorem add_unit_stock_source_witness:
  "''1001'' \<noteq> [] \<and> (0::int) < 1 \<and> ''1001'' \<in> dom (products full_cart) \<and>
   reaches_commit exact till paid_full \<and> \<not> reaches_commit exact till short_paid \<and>
   fst (scan_item exact ''1001'' (Number 1) full_cart) = Rejected InsufficientStock \<and>
   inventory (refresh_data emptied_disk full_cart) ''1001'' = Some (Fin 0) \<and>
   inventory (fst (snd (checkout exact till (paid_full, shelf_disk)))) ''1001''
     = Some (Fin 0) \<and>
   load_data (inventory_db shelf_disk) Map.empty ''1001'' = Some (Fin 5) \<and>
   inventory (fst (snd (checkout exact till (short_paid, emptied_disk)))) ''1001''
     = Some (Fin 5)"
proof -
  have p: "''1001'' \<in> dom (products full_cart)"
    by (simp add: handler_defs world_defs)
  have s: "unit_request exact (cart full_cart) ''1001'' 1 = Inr (Fin 6)"
          "flt (stock_of (inventory full_cart) ''1001'') (Fin 6)"
    by (simp_all add: handler_defs world_defs)
  have l: "load_data (inventory_db emptied_disk) Map.empty ''1001'' = Some (Fin 0)"
          "load_data (inventory_db shelf_disk) Map.empty ''1001'' = Some (Fin 5)"
    by (simp_all add: handler_defs world_defs)
  have r: "reaches_commit exact till paid_full"
    by (simp add: reaches_commit_def checkout_received_def handler_defs world_defs)
  have n: "\<not> reaches_commit exact till short_paid"
    by (simp add: reaches_commit_def checkout_received_def handler_defs world_defs)
  have sold: "snd (settle_stock exact (cart paid_full)
                     (load_data (inventory_db shelf_disk) Map.empty)) ''1001'' = Some (Fin 0)"
    by (simp add: handler_defs world_defs)
  have kept: "inventory short_paid ''1001'' = Some (Fin 5)"
    by (simp add: handler_defs world_defs)
  have full: "inventory paid_full = inventory full_cart" "cart paid_full = cart full_cart"
             "products paid_full = products full_cart"
    by (simp_all add: paid_full_def)
  show ?thesis
    using add_unit_stock_source
            [of "''1001''" 1 full_cart exact emptied_disk till till short_paid emptied_disk]
          add_unit_stock_source
            [of "''1001''" 1 paid_full exact shelf_disk till till short_paid emptied_disk]
          p s l r n sold kept full
    by simp
qed

subsection \<open>The sales journal\<close>

lemma foldl_append_entries:
  "foldl (\<lambda>lg bi. lg @ [f bi]) lg0 c = lg0 @ map f c"
  by (induction c arbitrary: lg0) simp_all

lemma log_sale_journal:
  "sales_log_db (log_sale t w c d) =
     (case w of
        Written \<Rightarrow> Content (load_data (sales_log_db d) [] @ map (make_log_entry t) c)
      | OpenFailed \<Rightarrow> sales_log_db d
      | WriteFailed \<Rightarrow> Corrupt)"
  by (simp add: log_sale_def save_data_def Let_def foldl_append_entries
        split: write_result.splits)

lemma commit_journal:
  "commit rnd ev t da dp r c (st, d) = (msgs, st', d') \<Longrightarrow>
     sales_log_db d' = sales_log_db (log_sale (sale_time ev) (log_write ev) (cart st) d)"
  by (auto simp add: commit_def Let_def split: prod.splits dest!: generate_receipt_frame)

lemma checkout_journal:
  assumes "reaches_commit rnd ev st"
  shows "sales_log_db (snd (snd (checkout rnd ev (st, d))))
           = sales_log_db (log_sale (sale_time ev) (log_write ev) (cart st) d)"
proof -
  from checkout_commits [OF assms, of d] obtain t da dp r c where
    co: "checkout rnd ev (st, d) =
           (Inr (fst (commit rnd ev t da dp r c (update_total rnd st, d))),
            snd (commit rnd ev t da dp r c (update_total rnd st, d)))" by blast
  have cm: "commit rnd ev t da dp r c (update_total rnd st, d)
              = (fst (commit rnd ev t da dp r c (update_total rnd st, d)),
                 fst (snd (checkout rnd ev (st, d))), snd (snd (checkout rnd ev (st, d))))"
    using co by (simp add: prod_eq_iff)
  from commit_journal [OF cm] show ?thesis by (simp add: update_total_frame)
qed

text \<open>
  C8. The claim says that a committed checkout appends one record per cart line and that
  every entry present before is preserved. \<open>save_data\<close> empties the journal file when it
  opens it. Here the write fails after the open (a full disk, say): the IOError is
  reported, the checkout completes with its receipt, and the journal, which held one
  sale, reads back empty.
\<close>

theorem journal_lost_on_failed_write_counterexample:
  "reaches_commit exact till_journal_fails paid_full \<and>
   load_data (sales_log_db logged_disk) [] = [old_sale] \<and>
   fst (checkout exact till_journal_fails (paid_full, logged_disk))
     = Inr [SaveFailure ''sales_log.json'',
            CheckoutComplete (Some ''receipts/receipt_20250101_100000.txt'')] \<and>
   sales_log_db (snd (snd (checkout exact till_journal_fails (paid_full, logged_disk))))
     = Corrupt \<and>
   load_data
     (sales_log_db (snd (snd (checkout exact till_journal_fails (paid_full, logged_disk)))))
     [] = []"
proof -
  have r: "reaches_commit exact till_journal_fails paid_full"
    by (simp add: reaches_commit_def checkout_received_def handler_defs world_defs)
  have j: "sales_log_db (snd (snd (checkout exact till_journal_fails (paid_full, logged_disk))))
             = Corrupt"
    using checkout_journal [OF r, of logged_disk]
    by (simp add: log_sale_journal till_journal_fails_def till_def)
  have m: "fst (checkout exact till_journal_fails (paid_full, logged_disk))
             = Inr [SaveFailure ''sales_log.json'',
                    CheckoutComplete (Some ''receipts/receipt_20250101_100000.txt'')]"
    by (simp add: checkout_def checkout_discount_def checkout_received_def commit_def
          log_sale_def generate_receipt_def clear_cart_def handler_defs world_defs
          split: prod.splits)
  have l: "load_data (sales_log_db logged_disk) [] = [old_sale]"
    by (simp add: load_data_def logged_disk_def)
  show ?thesis using r j m l by (simp add: load_data_def)
qed

text \<open>
  C8, amended. A checkout that passes its gates and whose journal write succeeds leaves
  the journal (the entries \<open>load_data\<close> reads from sales\_log.json; a missing or
  unreadable document counts as empty) as the entries that were there, unchanged and in
  place, followed by exactly one entry per cart line, in cart order, each with the one
  timestamp read before the loop. When the journal file cannot be opened for writing, the
  file is left as it was and the checkout goes on. When the write fails after the open,
  the checkout goes on as well and the journal reads back empty: the entries that were
  there are lost.
\<close>

theorem checkout_appends_journal:
  assumes "reaches_commit rnd ev st" and "checkout rnd ev (st, d) = (res, st', d')"
  shows "(log_write ev = Written \<longrightarrow>
            load_data (sales_log_db d') []
              = load_data (sales_log_db d) [] @ map (make_log_entry (sale_time ev)) (cart st) \<and>
            length (map (make_log_entry (sale_time ev)) (cart st)) = length (cart st) \<and>
            (\<forall>e \<in> set (map (make_log_entry (sale_time ev)) (cart st)).
               log_timestamp e = sale_time ev)) \<and>
         (log_write ev = OpenFailed \<longrightarrow> sales_log_db d' = sales_log_db d) \<and>
         (log_write ev = WriteFailed \<longrightarrow> load_data (sales_log_db d') [] = [])"
proof -
  have j: "sales_log_db d' = sales_log_db (log_sale (sale_time ev) (log_write ev) (cart st) d)"
    using checkout_journal [OF assms(1), of d] assms(2) by simp
  have ts: "\<forall>e \<in> set (map (make_log_entry (sale_time ev)) (cart st)).
              log_timestamp e = sale_time ev"
    by (auto simp add: make_log_entry_def)
  show ?thesis
    using j ts by (cases "log_write ev") (simp_all add: log_sale_journal load_data_def)
qed

theorem checkout_appends_journal_witness:
  "reaches_commit exact till paid_full \<and> log_write till = Written \<and>
   load_data (sales_log_db (snd (snd (checkout exact till (paid_full, logged_disk))))) []
     = [old_sale,
        \<lparr>log_timestamp = ''2025-01-01T10:00:00'', log_barcode = ''1001'', log_name = ''Milk'',
         log_quantity = Fin 5, log_line_total = Fin 250, log_is_weighted = False\<rparr>,
        \<lparr>log_timestamp = ''2025-01-01T10:00:00'', log_barcode = ''W-APPLE'',
         log_name = ''Apple'', log_quantity = Fin 10, log_line_total = Fin 800,
         log_is_weighted = True\<rparr>]"
proof -
  have c: "cart paid_full =
             [(''1001'', \<lparr>name = ''Milk'', unit_price = Fin 50, quantity = Fin 5,
                          line_total = Fin 250, is_weighted = False\<rparr>),
              (''W-APPLE'', \<lparr>name = ''Apple'', unit_price = Fin 80, quantity = Fin 10,
                             line_total = Fin 800, is_weighted = True\<rparr>)]"
    by (simp add: handler_defs world_defs)
  have r: "reaches_commit exact till paid_full"
    by (simp add: reaches_commit_def checkout_received_def handler_defs world_defs)
  have w: "log_write till = Written" "sale_time till = ''2025-01-01T10:00:00''"
    by (simp_all add: till_def)
  have l: "load_data (sales_log_db logged_disk) [] = [old_sale]"
    by (simp add: load_data_def logged_disk_def)
  have e: "checkout exact till (paid_full, logged_disk) =
             (fst (checkout exact till (paid_full, logged_disk)),
              fst (snd (checkout exact till (paid_full, logged_disk))),
              snd (snd (checkout exact till (paid_full, logged_disk))))"
    by simp
  show ?thesis
    using checkout_appends_journal [OF r e] r w l by (auto simp add: c make_log_entry_def)
qed

subsection \<open>Aggregation of adds on one barcode\<close>

text \<open>
  C5. The claim says that after any sequence of successful adds on one barcode the line
  total is the line's unit price times its quantity. \<open>add_weighted_item\<close> adds to the
  line total the weight times the price that the catalog holds at that moment (lines
  409 and 416 to 420), while the line keeps the unit price captured when it was created;
  \<open>scan_item\<close> recomputes from the line's own unit price (line 382). After 2.5 kg at
  80.00, a change of the catalog price to 100.00 and 1 kg more, the line reads unit price
  80.00, quantity 3.5 and line total 300.00, where 80.00 times 3.5 is 280.00. All the
  numbers are held exactly by a double, so no rounding is involved.
\<close>

theorem weighted_add_after_reprice_breaks_line_total:
  "fst (add_weighted_item exact ''W-APPLE'' (Number (Fin (5 / 2))) shelf) = Done \<and>
   fst (add_weighted_item exact ''W-APPLE'' (Number (Fin 1))
          (refresh_data repriced_disk apples_weighed)) = Done \<and>
   cart apples_repriced
     = [(''W-APPLE'', \<lparr>name = ''Apple'', unit_price = Fin 80, quantity = Fin (7 / 2),
                       line_total = Fin 300, is_weighted = True\<rparr>)] \<and>
   fmul exact (Fin 80) (Fin (7 / 2)) = Fin 280"
  by (simp add: handler_defs world_defs)

subsection \<open>The cart invariant\<close>

text \<open>
  The barcodes of the cart stay distinct, as the keys of the source's dict are.
\<close>

lemma cart_keys_distinct:
  assumes "distinct (map fst (cart st))"
  shows "distinct (map fst (cart (snd (scan_item rnd b qt st))))"
    and "distinct (map fst (cart (snd (add_weighted_item rnd wb wt st))))"
    and "distinct (map fst (cart (snd (remove_selected_item rnd sel cf st))))"
    and "distinct (map fst (cart (clear_cart rnd st)))"
  using assms
  by (auto simp add: scan_item_def add_weighted_item_def remove_selected_item_def
        clear_cart_def update_total_frame Let_def distinct_update distinct_delete
        split: entry.splits option.splits sum.splits)

text \<open>
  The empty cart of the shop satisfies the invariant; the cart after a weight of \<open>nan\<close>
  does not.
\<close>

lemma cart_invariant_shelf: "cart_invariant exact shelf"
  by (simp add: cart_invariant_def handler_defs world_defs)

lemma cart_invariant_broken_by_nan: "\<not> cart_invariant exact nan_weighed"
  by (simp add: cart_invariant_def handler_defs world_defs)

text \<open>
  C7. The claim says that every cart operation keeps every line's quantity strictly
  positive. \<open>add_weighted_item\<close> rejects a weight with \<open>weight <= 0\<close> (line 405, "Weight
  must be positive."); for the weight \<open>nan\<close>, which \<open>float()\<close> accepts, that test is
  false, and so is the stock test of line 413. Starting from the empty cart, the add
  succeeds and leaves a line whose quantity and line total are NaN, a subtotal of NaN, and
  a quantity for which \<open>0 < quantity\<close> is false.
\<close>

theorem nan_weight_enters_cart:
  "cart shelf = [] \<and>
   fst (add_weighted_item exact ''W-APPLE'' (Number NaN) shelf) = Done \<and>
   map (\<lambda>(b, item). (b, quantity item, line_total item, flt (Fin 0) (quantity item)))
     (cart nan_weighed) = [(''W-APPLE'', NaN, NaN, False)] \<and>
   subtotal nan_weighed = NaN"
  by (simp add: handler_defs world_defs)

subsection \<open>The receipt document\<close>

text \<open>
  C9. The claim says the receipt document is determined by the shop name, the cart
  lines, the subtotal and the five amounts passed in. \<open>generate_receipt\<close> also reads the
  clock for the Date/Time line: the same sale, with the same shop name and the same
  amounts, gives two different documents one second apart.
\<close>

theorem receipt_depends_on_clock_counterexample:
  "shop_name_var later_till = shop_name_var till \<and>
   receipt_document till paid_full (Fin 1050) (Fin 0) (Fin 0) (Fin 2000) (Fin 950)
     \<noteq> receipt_document later_till paid_full (Fin 1050) (Fin 0) (Fin 0) (Fin 2000) (Fin 950)"
  by (simp add: receipt_document_def receipt_lines_def join_lines_def later_till_def till_def)

text \<open>
  C9, amended. The receipt document is determined by the shop name, the cart lines in
  order, the subtotal, the five amounts passed in and the time printed on the Date/Time
  line: two generations that agree on these give the same text, whatever else differs
  (catalog, inventory, entries, the time stamp of the file name, the other answers of the
  environment).
\<close>

theorem receipt_determined_by_inputs_and_clock:
  "shop_name_var ev1 = shop_name_var ev2 \<and> receipt_time ev1 = receipt_time ev2 \<and>
   cart st1 = cart st2 \<and> subtotal st1 = subtotal st2 \<longrightarrow>
   receipt_document ev1 st1 t da dp r c = receipt_document ev2 st2 t da dp r c"
  by (simp add: receipt_document_def receipt_lines_def)

theorem receipt_determined_by_inputs_and_clock_witness:
  "shop_name_var till = shop_name_var (till\<lparr>receipt_stamp := ''20250101_100001''\<rparr>) \<and>
   receipt_time till = receipt_time (till\<lparr>receipt_stamp := ''20250101_100001''\<rparr>) \<and>
   cart paid_full = cart (refresh_data drifted_disk paid_full) \<and>
   subtotal paid_full = subtotal (refresh_data drifted_disk paid_full) \<and>
   receipt_document till paid_full (Fin 1050) (Fin 0) (Fin 0) (Fin 2000) (Fin 950)
     = receipt_document (till\<lparr>receipt_stamp := ''20250101_100001''\<rparr>)
         (refresh_data drifted_disk paid_full) (Fin 1050) (Fin 0) (Fin 0) (Fin 2000) (Fin 950)"
  using receipt_determined_by_inputs_and_clock
          [of till "till\<lparr>receipt_stamp := ''20250101_100001''\<rparr>" paid_full
              "refresh_data drifted_disk paid_full" "Fin 1050" "Fin 0" "Fin 0" "Fin 2000"
              "Fin 950"]
  by (simp add: refresh_data_def)

end
